theory Spec2Isabelle
  imports Main "HOL-Library.Word"
begin

section \<open>JavaScript values used by the environment validator\<close>

text \<open>
  A JavaScript string is a sequence of 16-bit code units; \<open>length\<close>, \<open>includes\<close>,
  \<open>startsWith\<close>, \<open>split\<close>, \<open>trim\<close>, \<open>parseInt\<close> and the regular expressions of the
  source (none has the \<open>u\<close> flag) all work on code units. A string literal of the source
  is written \<open>js ''...''\<close>; the few non-ASCII characters of the messages are given by
  their code units.
\<close>

type_synonym code_unit = "16 word"
type_synonym jsstring = "code_unit list"

definition js :: "string \<Rightarrow> jsstring" where
  "js s = map of_char s"

text \<open>
  \<open>process.env\<close>: every property that is set holds a string, a property that is not
  set reads as \<open>undefined\<close> (\<open>None\<close>).
\<close>

type_synonym environment = "jsstring \<rightharpoonup> jsstring"

text \<open>Truthiness of a value that is a string or \<open>undefined\<close>.\<close>

fun truthy :: "jsstring option \<Rightarrow> bool" where
  "truthy None = False"
| "truthy (Some s) = (s \<noteq> [])"

text \<open>\<open>s.startsWith(p)\<close> and \<open>s.includes(p)\<close>.\<close>

definition startsWith :: "jsstring \<Rightarrow> jsstring \<Rightarrow> bool" where
  "startsWith s p = (take (length p) s = p)"

fun includes_str :: "jsstring \<Rightarrow> jsstring \<Rightarrow> bool" where
  "includes_str [] p = (p = [])"
| "includes_str (c # cs) p = (startsWith (c # cs) p \<or> includes_str cs p)"

text \<open>
  \<open>x?.includes(p)\<close> used as a condition: \<open>undefined\<close> (falsy) when \<open>x\<close> is
  \<open>undefined\<close>.
\<close>

fun opt_includes :: "jsstring option \<Rightarrow> jsstring \<Rightarrow> bool" where
  "opt_includes None p = False"
| "opt_includes (Some s) p = includes_str s p"

text \<open>
  White space and line terminators of ECMAScript (what \<open>trim\<close>, \<open>parseInt\<close> and the
  class \<open>\s\<close> recognise): TAB, LF, VT, FF, CR, SPACE, NBSP, U+1680, U+2000 to U+200A,
  U+2028, U+2029, U+202F, U+205F, U+3000 and U+FEFF.
\<close>

definition isWhiteSpace :: "code_unit \<Rightarrow> bool" where
  "isWhiteSpace c \<longleftrightarrow>
     c = 0x09 \<or> c = 0x0A \<or> c = 0x0B \<or> c = 0x0C \<or> c = 0x0D \<or> c = 0x20 \<or> c = 0xA0 \<or>
     c = 0x1680 \<or> (0x2000 \<le> c \<and> c \<le> 0x200A) \<or> c = 0x2028 \<or> c = 0x2029 \<or>
     c = 0x202F \<or> c = 0x205F \<or> c = 0x3000 \<or> c = 0xFEFF"

definition trimStart :: "jsstring \<Rightarrow> jsstring" where
  "trimStart s = dropWhile isWhiteSpace s"

definition trim :: "jsstring \<Rightarrow> jsstring" where
  "trim s = rev (dropWhile isWhiteSpace (rev (dropWhile isWhiteSpace s)))"

text \<open>
  \<open>s.split(',')\<close> with a one-unit separator: the pieces between the separators, the
  empty ones included; always at least one piece.
\<close>

fun split_on :: "code_unit \<Rightarrow> jsstring \<Rightarrow> jsstring list" where
  "split_on sep [] = [[]]"
| "split_on sep (c # cs) =
     (if c = sep then [] # split_on sep cs
      else (case split_on sep cs of [] \<Rightarrow> [[c]] | p # ps \<Rightarrow> (c # p) # ps))"

subsection \<open>parseInt and isNaN\<close>

text \<open>
  \<open>parseInt(x)\<close> without a radix. The argument is converted to a string first
  (\<open>undefined\<close> becomes the text \<open>undefined\<close>); leading white space is dropped; one sign
  is read; the prefix \<open>0x\<close> or \<open>0X\<close> selects radix 16, otherwise the radix is 10; the
  longest run of digits of that radix is the number; no digit gives \<open>NaN\<close>, here
  \<open>None\<close>. The result is the integer that the digits denote. JavaScript rounds it
  to a double (a very long run of digits may become an infinity, and \<open>-0\<close> is a value of
  its own); rounding is monotone and leaves 1, 1000 and 65535 fixed, so \<open>isNaN\<close> and the
  comparisons that the source makes with these constants have the same truth value on the
  integer.
\<close>

text \<open>
  A number that \<open>parseInt\<close> returns: \<open>NaN\<close> or an integer. A comparison with
  \<open>NaN\<close> is false.
\<close>

type_synonym number = "int option"

definition isDigit :: "code_unit \<Rightarrow> bool" where
  "isDigit c \<longleftrightarrow> 0x30 \<le> c \<and> c \<le> 0x39"

definition digitValue :: "code_unit \<Rightarrow> int option" where
  "digitValue c =
     (if 0x30 \<le> c \<and> c \<le> 0x39 then Some (uint c - 0x30)
      else if 0x61 \<le> c \<and> c \<le> 0x7A then Some (uint c - 0x61 + 10)
      else if 0x41 \<le> c \<and> c \<le> 0x5A then Some (uint c - 0x41 + 10)
      else None)"

definition isRadixDigit :: "int \<Rightarrow> code_unit \<Rightarrow> bool" where
  "isRadixDigit R c = (case digitValue c of None \<Rightarrow> False | Some d \<Rightarrow> d < R)"

definition radixValue :: "int \<Rightarrow> jsstring \<Rightarrow> int" where
  "radixValue R Z = foldl (\<lambda>acc c. acc * R + (case digitValue c of None \<Rightarrow> 0 | Some d \<Rightarrow> d)) 0 Z"

definition toStringArg :: "jsstring option \<Rightarrow> jsstring" where
  "toStringArg x = (case x of None \<Rightarrow> js ''undefined'' | Some s \<Rightarrow> s)"

definition parseInt :: "jsstring option \<Rightarrow> number" where
  "parseInt x =
     (let S0 = trimStart (toStringArg x);
          sign = (if S0 \<noteq> [] \<and> hd S0 = 0x2D then - 1 else 1 :: int);
          S1 = (if S0 \<noteq> [] \<and> (hd S0 = 0x2B \<or> hd S0 = 0x2D) then tl S0 else S0);
          hex = (2 \<le> length S1 \<and> (take 2 S1 = js ''0x'' \<or> take 2 S1 = js ''0X''));
          R = (if hex then 16 else 10);
          S2 = (if hex then drop 2 S1 else S1);
          Z = takeWhile (isRadixDigit R) S2
      in if Z = [] then None else Some (sign * radixValue R Z))"

definition isNaN :: "number \<Rightarrow> bool" where
  "isNaN n = (n = None)"

definition num_lt :: "number \<Rightarrow> int \<Rightarrow> bool" where
  "num_lt n k = (case n of None \<Rightarrow> False | Some i \<Rightarrow> i < k)"

definition num_gt :: "number \<Rightarrow> int \<Rightarrow> bool" where
  "num_gt n k = (case n of None \<Rightarrow> False | Some i \<Rightarrow> i > k)"

subsection \<open>Regular expressions\<close>

text \<open>
  The two patterns of the source are built from character classes, sequence, an optional
  part and one-or-more repetition, and are anchored at both ends, so \<open>test\<close> asks whether
  the whole string matches. Matching is by derivatives.
\<close>

datatype regex =
    Never
  | Empty
  | Class "code_unit \<Rightarrow> bool"
  | Seq regex regex
  | Alt regex regex
  | Star regex

definition Optional :: "regex \<Rightarrow> regex" where
  "Optional r = Alt r Empty"

definition OneOrMore :: "regex \<Rightarrow> regex" where
  "OneOrMore r = Seq r (Star r)"

fun nullable :: "regex \<Rightarrow> bool" where
  "nullable Never = False"
| "nullable Empty = True"
| "nullable (Class P) = False"
| "nullable (Seq r s) = (nullable r \<and> nullable s)"
| "nullable (Alt r s) = (nullable r \<or> nullable s)"
| "nullable (Star r) = True"

fun deriv :: "code_unit \<Rightarrow> regex \<Rightarrow> regex" where
  "deriv c Never = Never"
| "deriv c Empty = Never"
| "deriv c (Class P) = (if P c then Empty else Never)"
| "deriv c (Seq r s) =
     (if nullable r then Alt (Seq (deriv c r) s) (deriv c s) else Seq (deriv c r) s)"
| "deriv c (Alt r s) = Alt (deriv c r) (deriv c s)"
| "deriv c (Star r) = Seq (deriv c r) (Star r)"

fun matches :: "regex \<Rightarrow> jsstring \<Rightarrow> bool" where
  "matches r [] = nullable r"
| "matches r (c # cs) = matches (deriv c r) cs"

text \<open>\<open>/^-?\d+$/\<close>\<close>

definition chatIdPattern :: regex where
  "chatIdPattern = Seq (Optional (Class (\<lambda>c. c = 0x2D))) (OneOrMore (Class isDigit))"

text \<open>\<open>/^[^\s@]+@[^\s@]+\.[^\s@]+$/\<close>\<close>

definition notSpaceOrAt :: "code_unit \<Rightarrow> bool" where
  "notSpaceOrAt c \<longleftrightarrow> \<not> isWhiteSpace c \<and> c \<noteq> 0x40"

definition emailPattern :: regex where
  "emailPattern =
     Seq (OneOrMore (Class notSpaceOrAt))
       (Seq (Class (\<lambda>c. c = 0x40))
         (Seq (OneOrMore (Class notSpaceOrAt))
           (Seq (Class (\<lambda>c. c = 0x2E)) (OneOrMore (Class notSpaceOrAt)))))"

section \<open>checkEnvironment\<close>

definition requiredEnvVars :: "jsstring list" where
  "requiredEnvVars =
     [js ''PORT'', js ''JWT_SECRET'', js ''TELEGRAM_BOT_TOKEN'', js ''TELEGRAM_CHAT_ID'']"

definition optionalEnvVars :: "jsstring list" where
  "optionalEnvVars =
     [js ''NODE_ENV'', js ''MONGODB_URI'', js ''SMTP_HOST'', js ''SMTP_PORT'', js ''SMTP_USER'',
      js ''SMTP_PASS'', js ''RATE_LIMIT_WINDOW_MS'', js ''RATE_LIMIT_MAX_REQUESTS'',
      js ''ALLOWED_ORIGINS'', js ''ENCRYPTION_KEY'']"

text \<open>The three arrays that the function fills before it reports anything.\<close>

record findings =
  missing :: "jsstring list"
  warnings :: "jsstring list"
  critical :: "jsstring list"

text \<open>\<open>xs.push(x)\<close> under a condition.\<close>

definition push_if :: "bool \<Rightarrow> 'a \<Rightarrow> 'a list \<Rightarrow> 'a list" where
  "push_if b x xs = (if b then xs @ [x] else xs)"

definition msgJwtLength :: jsstring where
  "msgJwtLength = js ''JWT_SECRET must be at least 32 characters long for security''"

definition msgJwtDefault :: jsstring where
  "msgJwtDefault = js ''JWT_SECRET is using default value - CHANGE IT IMMEDIATELY!''"

definition msgJwtExample :: jsstring where
  "msgJwtExample = js ''JWT_SECRET appears to be using example value''"

definition msgBotToken :: jsstring where
  "msgBotToken = js ''TELEGRAM_BOT_TOKEN appears to be using example value''"

definition msgPort :: jsstring where
  "msgPort = js ''PORT should be a valid port number (1-65535)''"

definition msgWindow :: jsstring where
  "msgWindow = js ''RATE_LIMIT_WINDOW_MS should be at least 1000ms''"

definition msgMaxReq :: jsstring where
  "msgMaxReq = js ''RATE_LIMIT_MAX_REQUESTS should be a positive number''"

definition msgChatId :: jsstring where
  "msgChatId = js ''TELEGRAM_CHAT_ID should be a numeric value''"

definition msgOrigin :: "jsstring \<Rightarrow> jsstring" where
  "msgOrigin trimmed =
     js ''Invalid origin format: '' @ trimmed @ js ''. Should start with http:// or https://''"

text \<open>Lines 32 to 36: the required variables that are not set or are empty.\<close>

definition checkRequired :: "environment \<Rightarrow> jsstring list" where
  "checkRequired env = filter (\<lambda>varName. \<not> truthy (env varName)) requiredEnvVars"

text \<open>Lines 39 to 51: the strength of the JWT secret and the example value.\<close>

definition checkSecret :: "environment \<Rightarrow> jsstring list" where
  "checkSecret env =
     (let c0 = [];
          c1 = (case env (js ''JWT_SECRET'') of
                  None \<Rightarrow> c0
                | Some secret \<Rightarrow>
                    if secret \<noteq> [] then
                      push_if (secret = js ''play-kids-secret-key'') msgJwtDefault
                        (push_if (length secret < 32) msgJwtLength c0)
                    else c0)
      in push_if (opt_includes (env (js ''JWT_SECRET'')) (js ''your_super_secret''))
           msgJwtExample c1)"

text \<open>Lines 86 to 91: one warning for each piece of ALLOWED_ORIGINS that is not an origin.\<close>

definition checkOrigin :: "jsstring \<Rightarrow> jsstring list" where
  "checkOrigin origin =
     (let trimmed = trim origin
      in if trimmed \<noteq> [] \<and> \<not> startsWith trimmed (js ''http://'')
            \<and> \<not> startsWith trimmed (js ''https://'')
         then [msgOrigin trimmed] else [])"

text \<open>Lines 53 to 92: the warnings, in the order in which they are pushed.\<close>

definition checkWarnings :: "environment \<Rightarrow> jsstring list" where
  "checkWarnings env =
     (let w0 = [];
          w1 = push_if (opt_includes (env (js ''TELEGRAM_BOT_TOKEN'')) (js ''your_bot_token''))
                 msgBotToken w0;
          port = parseInt (env (js ''PORT''));
          w2 = push_if (isNaN port \<or> num_lt port 1 \<or> num_gt port 65535) msgPort w1;
          w3 = (if truthy (env (js ''RATE_LIMIT_WINDOW_MS'')) then
                  (let windowMs = parseInt (env (js ''RATE_LIMIT_WINDOW_MS''))
                   in push_if (isNaN windowMs \<or> num_lt windowMs 1000) msgWindow w2)
                else w2);
          w4 = (if truthy (env (js ''RATE_LIMIT_MAX_REQUESTS'')) then
                  (let maxReq = parseInt (env (js ''RATE_LIMIT_MAX_REQUESTS''))
                   in push_if (isNaN maxReq \<or> num_lt maxReq 1) msgMaxReq w3)
                else w3);
          w5 = (case env (js ''TELEGRAM_CHAT_ID'') of
                  None \<Rightarrow> w4
                | Some chatId \<Rightarrow>
                    push_if (chatId \<noteq> [] \<and> \<not> matches chatIdPattern chatId) msgChatId w4);
          w6 = (case env (js ''ALLOWED_ORIGINS'') of
                  None \<Rightarrow> w5
                | Some allowed \<Rightarrow>
                    if allowed \<noteq> [] then w5 @ concat (map checkOrigin (split_on 0x2C allowed))
                    else w5)
      in w6)"

definition collectFindings :: "environment \<Rightarrow> findings" where
  "collectFindings env =
     \<lparr> missing = checkRequired env, warnings = checkWarnings env, critical = checkSecret env \<rparr>"

subsection \<open>Reporting and process exit\<close>

text \<open>
  What the function does to the outside: a line on one of the three console channels, or
  \<open>process.exit(code)\<close>, which ends the process at once.
\<close>

datatype effect =
    ConsoleError jsstring
  | ConsoleWarn jsstring
  | ConsoleLog jsstring
  | ProcessExit int

datatype completion = Returned | Exited int

text \<open>
  Running the statements in program order: \<open>process.exit\<close> does not return, so nothing
  that the program text holds after it is executed.
\<close>

fun run :: "effect list \<Rightarrow> effect list \<times> completion" where
  "run [] = ([], Returned)"
| "run (ProcessExit code # rest) = ([ProcessExit code], Exited code)"
| "run (e # rest) = (let (done, c) = run rest in (e # done, c))"

definition item :: "jsstring \<Rightarrow> jsstring" where
  "item x = js ''   - '' @ x"

definition msgCriticalHeader :: jsstring where
  "msgCriticalHeader = [0xD83D, 0xDEA8] @ js '' CRITICAL SECURITY ISSUES:''"

definition msgCannotStart :: jsstring where
  "msgCannotStart =
     [0x0A, 0x274C] @ js '' Cannot start in production with critical security issues!''"

definition msgMissingHeader :: jsstring where
  "msgMissingHeader = [0x274C] @ js '' Missing required environment variables:''"

definition msgPleaseCheck :: jsstring where
  "msgPleaseCheck = [0x0A] @ js ''Please check your .env file and backend/.env.example''"

definition msgWarningsHeader :: jsstring where
  "msgWarningsHeader = [0x26A0, 0xFE0F] @ js ''  Environment warnings:''"

definition msgValidated :: jsstring where
  "msgValidated = [0x2705] @ js '' Environment variables validated''"

definition msgOptionalHeader :: jsstring where
  "msgOptionalHeader = [0x2139, 0xFE0F] @ js ''  Optional environment variables not set:''"

text \<open>Lines 95 to 102.\<close>

definition reportCritical :: "environment \<Rightarrow> findings \<Rightarrow> effect list" where
  "reportCritical env f =
     (if length (critical f) > 0 then
        [ConsoleError msgCriticalHeader]
        @ map (\<lambda>c. ConsoleError (item c)) (critical f)
        @ (if env (js ''NODE_ENV'') = Some (js ''production'')
           then [ConsoleError msgCannotStart, ProcessExit 1] else [])
      else [])"

text \<open>Lines 105 to 110.\<close>

definition reportMissing :: "findings \<Rightarrow> effect list" where
  "reportMissing f =
     (if length (missing f) > 0 then
        [ConsoleError msgMissingHeader]
        @ map (\<lambda>v. ConsoleError (item v)) (missing f)
        @ [ConsoleError msgPleaseCheck, ProcessExit 1]
      else [])"

text \<open>Lines 112 to 115.\<close>

definition reportWarnings :: "findings \<Rightarrow> effect list" where
  "reportWarnings f =
     (if length (warnings f) > 0 then
        [ConsoleWarn msgWarningsHeader] @ map (\<lambda>w. ConsoleWarn (item w)) (warnings f)
      else [])"

text \<open>Lines 120 to 126.\<close>

definition reportOptional :: "environment \<Rightarrow> effect list" where
  "reportOptional env =
     (if env (js ''NODE_ENV'') = Some (js ''development'') then
        (let missingOptional = filter (\<lambda>v. \<not> truthy (env v)) optionalEnvVars
         in if length missingOptional > 0 then
              [ConsoleLog msgOptionalHeader] @ map (\<lambda>v. ConsoleLog (item v)) missingOptional
            else [])
      else [])"

definition reportStatements :: "environment \<Rightarrow> findings \<Rightarrow> effect list" where
  "reportStatements env f =
     reportCritical env f @ reportMissing f @ reportWarnings f
     @ [ConsoleLog msgValidated] @ reportOptional env"

text \<open>
  One call of \<open>checkEnvironment\<close> on the environment of the process: the three arrays as
  they stand when reporting starts, the effects that were carried out, in order, and how the
  call ended. The mode is what \<open>process.env.NODE_ENV\<close> holds.
\<close>

record execution =
  found :: findings
  sink :: "effect list"
  completion :: completion

definition checkEnvironment :: "environment \<Rightarrow> execution" where
  "checkEnvironment env =
     (let f = collectFindings env;
          (done, c) = run (reportStatements env f)
      in \<lparr> found = f, sink = done, completion = c \<rparr>)"

text \<open>
  The outcome of the specification: Halt when the call ended the process, Proceed when it
  returned to its caller.
\<close>

datatype outcome = Halt | Proceed

definition outcome :: "execution \<Rightarrow> outcome" where
  "outcome r = (case completion r of Exited code \<Rightarrow> Halt | Returned \<Rightarrow> Proceed)"

definition mode :: "environment \<Rightarrow> jsstring option" where
  "mode env = env (js ''NODE_ENV'')"

section \<open>validateEnvValue\<close>

subsection \<open>The URL constructor\<close>

text \<open>
  \<open>new URL(value)\<close> runs the basic URL parser of the URL Standard on \<open>value\<close>, without a
  base URL, and throws a \<open>TypeError\<close> when the parser returns failure. The source throws
  the URL object away, so the model keeps only what decides between the two: the scheme, and
  the part of the input that the host was parsed from (\<open>None\<close> for the null host). The parts
  of the parser that never fail (credentials, path, query, fragment) only move the pointer.
  The host parser of the platform (percent-decoding, IDNA, IPv4 and IPv6 addresses, opaque
  hosts) is a parameter: it is given the flag \<open>isOpaque\<close> and the host text and says
  whether the text parses.
\<close>

datatype exception = TypeError

type_synonym hostParser = "bool \<Rightarrow> jsstring \<Rightarrow> bool"

record url =
  scheme :: jsstring
  host :: "jsstring option"

definition isC0ControlOrSpace :: "code_unit \<Rightarrow> bool" where
  "isC0ControlOrSpace c \<longleftrightarrow> c \<le> 0x20"

definition isTabOrNewline :: "code_unit \<Rightarrow> bool" where
  "isTabOrNewline c \<longleftrightarrow> c = 0x09 \<or> c = 0x0A \<or> c = 0x0D"

text \<open>
  Leading and trailing C0 controls and spaces are removed, then every tab and newline.
\<close>

definition cleanInput :: "jsstring \<Rightarrow> jsstring" where
  "cleanInput s =
     filter (\<lambda>c. \<not> isTabOrNewline c)
       (rev (dropWhile isC0ControlOrSpace (rev (dropWhile isC0ControlOrSpace s))))"

definition isASCIIAlpha :: "code_unit \<Rightarrow> bool" where
  "isASCIIAlpha c \<longleftrightarrow> (0x41 \<le> c \<and> c \<le> 0x5A) \<or> (0x61 \<le> c \<and> c \<le> 0x7A)"

definition isSchemeUnit :: "code_unit \<Rightarrow> bool" where
  "isSchemeUnit c \<longleftrightarrow> isASCIIAlpha c \<or> isDigit c \<or> c = 0x2B \<or> c = 0x2D \<or> c = 0x2E"

definition toLower :: "code_unit \<Rightarrow> code_unit" where
  "toLower c = (if 0x41 \<le> c \<and> c \<le> 0x5A then c + 0x20 else c)"

definition specialSchemes :: "jsstring list" where
  "specialSchemes = [js ''ftp'', js ''file'', js ''http'', js ''https'', js ''ws'', js ''wss'']"

text \<open>
  The units that end the authority: \<open>/\<close>, \<open>?\<close>, \<open>#\<close>, and \<open>\\<close> in a special URL
  (the end of the input ends it too).
\<close>

definition endsAuthority :: "bool \<Rightarrow> code_unit \<Rightarrow> bool" where
  "endsAuthority special c \<longleftrightarrow> c = 0x2F \<or> c = 0x3F \<or> c = 0x23 \<or> (special \<and> c = 0x5C)"

text \<open>
  Port state: digits up to the end of the authority; a number above 65535 or any other
  unit is a failure.
\<close>

definition portState :: "bool \<Rightarrow> jsstring \<Rightarrow> bool" where
  "portState special r =
     (let buffer = takeWhile isDigit r;
          rest = dropWhile isDigit r
      in if rest = [] \<or> endsAuthority special (hd rest)
         then buffer = [] \<or> radixValue 10 buffer \<le> 65535
         else False)"

text \<open>
  Host state: the buffer grows up to a colon outside square brackets or to the end of the
  authority. The result is the buffer and the input from the unit that stopped the scan.
\<close>

fun scanHost :: "bool \<Rightarrow> bool \<Rightarrow> jsstring \<Rightarrow> jsstring \<Rightarrow> jsstring \<times> jsstring" where
  "scanHost special insideBrackets buffer [] = (buffer, [])"
| "scanHost special insideBrackets buffer (c # cs) =
     (if c = 0x3A \<and> \<not> insideBrackets then (buffer, c # cs)
      else if endsAuthority special c then (buffer, c # cs)
      else scanHost special
             (if c = 0x5B then True else if c = 0x5D then False else insideBrackets)
             (buffer @ [c]) cs)"

definition hostState :: "hostParser \<Rightarrow> bool \<Rightarrow> jsstring \<Rightarrow> exception + jsstring option" where
  "hostState parseHost special r =
     (let (buffer, rest) = scanHost special False [] r
      in if rest \<noteq> [] \<and> hd rest = 0x3A then
           (if buffer = [] then Inl TypeError
            else if \<not> parseHost (\<not> special) buffer then Inl TypeError
            else if portState special (tl rest) then Inr (Some buffer)
            else Inl TypeError)
         else
           (if special \<and> buffer = [] then Inl TypeError
            else if \<not> parseHost (\<not> special) buffer then Inl TypeError
            else Inr (Some buffer)))"

text \<open>
  Authority state: up to the end of the authority, everything before the last \<open>@\<close> is
  credentials; credentials followed by no host are a failure; the host state starts after
  the last \<open>@\<close>.
\<close>

definition authorityState :: "hostParser \<Rightarrow> bool \<Rightarrow> jsstring \<Rightarrow> exception + jsstring option" where
  "authorityState parseHost special r =
     (let authority = takeWhile (\<lambda>c. \<not> endsAuthority special c) r;
          buffer = rev (takeWhile (\<lambda>c. c \<noteq> 0x40) (rev authority));
          atSignSeen = (0x40 \<in> set authority)
      in if atSignSeen \<and> buffer = [] then Inl TypeError
         else hostState parseHost special (drop (length authority - length buffer) r))"

text \<open>
  Special authority slashes state and special authority ignore slashes state: any run of
  \<open>/\<close> and \<open>\\<close> after the colon is skipped.
\<close>

definition specialAuthority :: "hostParser \<Rightarrow> jsstring \<Rightarrow> exception + jsstring option" where
  "specialAuthority parseHost r =
     authorityState parseHost True (dropWhile (\<lambda>c. c = 0x2F \<or> c = 0x5C) r)"

definition isWindowsDriveLetter :: "jsstring \<Rightarrow> bool" where
  "isWindowsDriveLetter b \<longleftrightarrow>
     length b = 2 \<and> isASCIIAlpha (hd b) \<and> (b ! 1 = 0x3A \<or> b ! 1 = 0x7C)"

text \<open>File host state: the buffer runs to \<open>/\<close>, \<open>\\<close>, \<open>?\<close>, \<open>#\<close> or the end.\<close>

definition fileHostState :: "hostParser \<Rightarrow> jsstring \<Rightarrow> exception + jsstring option" where
  "fileHostState parseHost r =
     (let buffer = takeWhile (\<lambda>c. \<not> endsAuthority True c) r
      in if isWindowsDriveLetter buffer then Inr (Some [])
         else if buffer = [] then Inr (Some [])
         else if parseHost False buffer then Inr (Some buffer)
         else Inl TypeError)"

text \<open>
  File state and file slash state, without a base URL: the host is the empty host unless
  two slashes lead to the file host state.
\<close>

fun fileState :: "hostParser \<Rightarrow> jsstring \<Rightarrow> exception + jsstring option" where
  "fileState parseHost (c # d # r) =
     (if (c = 0x2F \<or> c = 0x5C) \<and> (d = 0x2F \<or> d = 0x5C) then fileHostState parseHost r
      else Inr (Some []))"
| "fileState parseHost r = Inr (Some [])"

text \<open>
  After the scheme of a URL that is not special: \<open>//\<close> starts an authority, a single \<open>/\<close>
  a path, anything else an opaque path; the last two leave the host null and cannot fail.
\<close>

fun afterScheme :: "hostParser \<Rightarrow> jsstring \<Rightarrow> exception + jsstring option" where
  "afterScheme parseHost (c # d # r) =
     (if c = 0x2F \<and> d = 0x2F then authorityState parseHost False r else Inr None)"
| "afterScheme parseHost r = Inr None"

text \<open>
  Scheme start state, scheme state and no scheme state: a letter, then letters, digits,
  \<open>+\<close>, \<open>-\<close> and \<open>.\<close>, then a colon; anything else is a failure, since there is no
  base URL.
\<close>

definition basicURLParser :: "hostParser \<Rightarrow> jsstring \<Rightarrow> exception + url" where
  "basicURLParser parseHost input =
     (let s = cleanInput input;
          buffer = map toLower (takeWhile isSchemeUnit s);
          rest = dropWhile isSchemeUnit s
      in if s = [] \<or> \<not> isASCIIAlpha (hd s) then Inl TypeError
         else if rest = [] \<or> hd rest \<noteq> 0x3A then Inl TypeError
         else
           (case (if buffer = js ''file'' then fileState parseHost (tl rest)
                  else if buffer \<in> set specialSchemes then specialAuthority parseHost (tl rest)
                  else afterScheme parseHost (tl rest)) of
              Inl e \<Rightarrow> Inl e
            | Inr h \<Rightarrow> Inr \<lparr> scheme = buffer, host = h \<rparr>))"

definition URL_new :: "hostParser \<Rightarrow> jsstring \<Rightarrow> exception + url" where
  "URL_new parseHost value = basicURLParser parseHost value"

subsection \<open>The function\<close>

text \<open>
  \<open>validateEnvValue(name, value, type = 'string')\<close>: the value is a string or absent, the
  type is a string or left out. The result is \<open>Inr\<close> of the boolean that is returned, or
  \<open>Inl\<close> of an exception that leaves the function.
\<close>

definition validateEnvValue ::
  "hostParser \<Rightarrow> jsstring \<Rightarrow> jsstring option \<Rightarrow> jsstring option \<Rightarrow> exception + bool" where
  "validateEnvValue parseHost name value type_arg =
     (let type = (case type_arg of None \<Rightarrow> js ''string'' | Some t \<Rightarrow> t)
      in if \<not> truthy value then Inr False
         else if type = js ''number'' then Inr (\<not> isNaN (parseInt value))
         else if type = js ''boolean'' then
           Inr (value = Some (js ''true'') \<or> value = Some (js ''false''))
         else if type = js ''url'' then
           (case value of
              None \<Rightarrow> Inr False
            | Some v \<Rightarrow>
                (case URL_new parseHost v of Inr u \<Rightarrow> Inr True | Inl e \<Rightarrow> Inr False))
         else if type = js ''email'' then
           (case value of None \<Rightarrow> Inr False | Some v \<Rightarrow> Inr (matches emailPattern v))
         else Inr (case value of None \<Rightarrow> False | Some v \<Rightarrow> length v > 0))"


definition acceptHosts :: hostParser where
  "acceptHosts isOpaque input = True"

section \<open>Auxiliary notions for the proofs\<close>

definition isExit :: "effect \<Rightarrow> bool" where
  "isExit e = (case e of ProcessExit code \<Rightarrow> True | _ \<Rightarrow> False)"

definition production :: "environment \<Rightarrow> bool" where
  "production env \<longleftrightarrow> env (js ''NODE_ENV'') = Some (js ''production'')"

text \<open>The lines of the critical block and of the missing block, without their exits.\<close>

definition criticalBody :: "findings \<Rightarrow> effect list" where
  "criticalBody f =
     ConsoleError msgCriticalHeader # map (\<lambda>c. ConsoleError (item c)) (critical f)"

definition criticalShown :: "findings \<Rightarrow> effect list" where
  "criticalShown f = (if critical f \<noteq> [] then criticalBody f else [])"

definition missingBody :: "findings \<Rightarrow> effect list" where
  "missingBody f =
     ConsoleError msgMissingHeader # map (\<lambda>v. ConsoleError (item v)) (missing f)
     @ [ConsoleError msgPleaseCheck]"

subsection \<open>Concrete environments\<close>

definition xs40 :: jsstring where
  "xs40 = js ''xxxxxxxxxxxxxxxxxxxxxxxxxxxxxxxxxxxxxxxx''"

definition envNone :: environment where
  "envNone = map_of []"

definition envShortSecret :: environment where
  "envShortSecret =
     map_of [(js ''JWT_SECRET'', js ''short''), (js ''NODE_ENV'', js ''production'')]"

definition envValid :: environment where
  "envValid =
     map_of [(js ''PORT'', js ''3000''), (js ''JWT_SECRET'', xs40),
       (js ''TELEGRAM_BOT_TOKEN'', js ''abc''), (js ''TELEGRAM_CHAT_ID'', js ''12345''),
       (js ''NODE_ENV'', js ''production'')]"

definition envBigPort :: environment where
  "envBigPort =
     map_of [(js ''PORT'', js ''99999''), (js ''JWT_SECRET'', xs40),
       (js ''TELEGRAM_BOT_TOKEN'', js ''abc''), (js ''TELEGRAM_CHAT_ID'', js ''12345''),
       (js ''NODE_ENV'', js ''production'')]"

definition envWeakProduction :: environment where
  "envWeakProduction =
     map_of [(js ''PORT'', js ''3000''), (js ''JWT_SECRET'', js ''short''),
       (js ''TELEGRAM_BOT_TOKEN'', js ''abc''), (js ''TELEGRAM_CHAT_ID'', js ''12345''),
       (js ''NODE_ENV'', js ''production'')]"

section \<open>Properties of the built-ins\<close>

lemma truthy_iff: "truthy v \<longleftrightarrow> v \<noteq> None \<and> v \<noteq> Some []"
  by (cases v) simp_all

lemma startsWith_iff: "startsWith s p \<longleftrightarrow> (\<exists>b. s = p @ b)"
  unfolding startsWith_def
  by (metis append_eq_conv_conj append_take_drop_id)

text \<open>\<open>includes_str\<close> finds exactly the substrings.\<close>

lemma includes_str_iff: "includes_str s p \<longleftrightarrow> (\<exists>a b. s = a @ p @ b)"
proof (induction s)
  case Nil
  then show ?case by simp
next
  case (Cons c cs)
  show ?case
  proof
    assume "includes_str (c # cs) p"
    then consider "startsWith (c # cs) p" | "includes_str cs p" by auto
    then show "\<exists>a b. c # cs = a @ p @ b"
    proof cases
      case 1
      then obtain b where "c # cs = p @ b" using startsWith_iff by blast
      then have "c # cs = [] @ p @ b" by simp
      then show ?thesis by blast
    next
      case 2
      then obtain a b where "cs = a @ p @ b" using Cons.IH by blast
      then have "c # cs = (c # a) @ p @ b" by simp
      then show ?thesis by blast
    qed
  next
    assume "\<exists>a b. c # cs = a @ p @ b"
    then obtain a b where ab: "c # cs = a @ p @ b" by blast
    show "includes_str (c # cs) p"
    proof (cases a)
      case Nil
      with ab have "startsWith (c # cs) p" using startsWith_iff by auto
      then show ?thesis by simp
    next
      case (Cons a0 as)
      with ab have "cs = as @ p @ b" by simp
      then have "includes_str cs p" using Cons.IH by blast
      then show ?thesis by simp
    qed
  qed
qed

lemma parseInt_absent: "parseInt None = None"
  by (simp add: parseInt_def toStringArg_def trimStart_def js_def isWhiteSpace_def
      isRadixDigit_def digitValue_def)

lemma parseInt_empty: "parseInt (Some []) = None"
  by (simp add: parseInt_def toStringArg_def trimStart_def js_def)

lemma parseInt_99999: "parseInt (Some (js ''99999'')) = Some 99999"
  by (simp add: parseInt_def toStringArg_def trimStart_def js_def isWhiteSpace_def
      isRadixDigit_def digitValue_def radixValue_def)

section \<open>How a run of checkEnvironment ends\<close>

lemma run_no_exit:
  "\<forall>e \<in> set xs. \<not> isExit e \<Longrightarrow> run (xs @ ys) = (xs @ fst (run ys), snd (run ys))"
proof (induction xs)
  case Nil
  then show ?case by simp
next
  case (Cons e xs)
  then show ?case by (cases e) (simp_all add: isExit_def split: prod.splits)
qed

lemma run_exit:
  "\<forall>e \<in> set xs. \<not> isExit e \<Longrightarrow>
     run (xs @ ProcessExit code # ys) = (xs @ [ProcessExit code], Exited code)"
  by (simp add: run_no_exit)

lemma run_all: "\<forall>e \<in> set xs. \<not> isExit e \<Longrightarrow> run xs = (xs, Returned)"
  using run_no_exit [of xs "[]"] by simp

lemma filter_no_exit: "\<forall>e \<in> set xs. \<not> isExit e \<Longrightarrow> filter isExit xs = []"
  by (simp add: filter_empty_conv)

lemma criticalBody_no_exit: "\<forall>e \<in> set (criticalBody f). \<not> isExit e"
  by (auto simp: criticalBody_def isExit_def)

lemma criticalShown_no_exit: "\<forall>e \<in> set (criticalShown f). \<not> isExit e"
  using criticalBody_no_exit [of f] by (simp add: criticalShown_def)

lemma missingBody_no_exit: "\<forall>e \<in> set (missingBody f). \<not> isExit e"
  by (auto simp: missingBody_def isExit_def)

lemma reportWarnings_no_exit: "\<forall>e \<in> set (reportWarnings f). \<not> isExit e"
  by (auto simp: reportWarnings_def isExit_def)

lemma reportOptional_no_exit: "\<forall>e \<in> set (reportOptional env). \<not> isExit e"
  by (auto simp: reportOptional_def isExit_def Let_def)

text \<open>
  The three ways a run can go: stopped in the critical block, stopped in the missing
  block, or carried through to the end.
\<close>

lemma run_report_critical_production:
  assumes "critical f \<noteq> []" and "production env"
  shows "run (reportStatements env f)
           = (criticalBody f @ [ConsoleError msgCannotStart, ProcessExit 1], Exited 1)"
proof -
  have "reportStatements env f
          = (criticalBody f @ [ConsoleError msgCannotStart]) @ ProcessExit 1 #
            (reportMissing f @ reportWarnings f @ [ConsoleLog msgValidated] @ reportOptional env)"
    using assms
    by (simp add: reportStatements_def reportCritical_def criticalBody_def production_def)
  moreover have ne: "\<forall>e \<in> set (criticalBody f @ [ConsoleError msgCannotStart]). \<not> isExit e"
    using criticalBody_no_exit by (auto simp: isExit_def)
  ultimately show ?thesis
    using run_exit [OF ne] by simp
qed

lemma run_report_missing:
  assumes "\<not> (critical f \<noteq> [] \<and> production env)" and "missing f \<noteq> []"
  shows "run (reportStatements env f)
           = (criticalShown f @ missingBody f @ [ProcessExit 1], Exited 1)"
proof -
  have "reportStatements env f
          = (criticalShown f @ missingBody f) @ ProcessExit 1 #
            (reportWarnings f @ [ConsoleLog msgValidated] @ reportOptional env)"
    using assms
    by (auto simp add: reportStatements_def reportCritical_def reportMissing_def
        criticalBody_def criticalShown_def missingBody_def production_def)
  moreover have ne: "\<forall>e \<in> set (criticalShown f @ missingBody f). \<not> isExit e"
    using criticalShown_no_exit [of f] missingBody_no_exit [of f] by auto
  ultimately show ?thesis
    using run_exit [OF ne] by simp
qed

lemma run_report_proceed:
  assumes "\<not> (critical f \<noteq> [] \<and> production env)" and "missing f = []"
  shows "run (reportStatements env f)
           = (criticalShown f @ reportWarnings f @ [ConsoleLog msgValidated]
              @ reportOptional env, Returned)"
proof -
  have "reportStatements env f
          = criticalShown f @ reportWarnings f @ [ConsoleLog msgValidated] @ reportOptional env"
    using assms
    by (auto simp add: reportStatements_def reportCritical_def reportMissing_def
        criticalBody_def criticalShown_def production_def)
  moreover have ne: "\<forall>e \<in> set (criticalShown f @ reportWarnings f @ [ConsoleLog msgValidated]
                        @ reportOptional env). \<not> isExit e"
    using criticalShown_no_exit [of f] reportWarnings_no_exit [of f]
      reportOptional_no_exit [of env]
    by (auto simp: isExit_def)
  ultimately show ?thesis
    using run_all [OF ne] by simp
qed

lemma found_checkEnvironment: "found (checkEnvironment env) = collectFindings env"
  by (simp add: checkEnvironment_def Let_def split: prod.splits)

lemma sink_checkEnvironment:
  "sink (checkEnvironment env) = fst (run (reportStatements env (collectFindings env)))"
  by (simp add: checkEnvironment_def Let_def split: prod.splits)

lemma completion_checkEnvironment:
  "completion (checkEnvironment env) = snd (run (reportStatements env (collectFindings env)))"
  by (simp add: checkEnvironment_def Let_def split: prod.splits)

lemma missing_collect: "missing (collectFindings env) = checkRequired env"
  by (simp add: collectFindings_def)

lemma critical_collect: "critical (collectFindings env) = checkSecret env"
  by (simp add: collectFindings_def)

lemma warnings_collect: "warnings (collectFindings env) = checkWarnings env"
  by (simp add: collectFindings_def)

lemma outcome_iff:
  "outcome (checkEnvironment env) = Halt \<longleftrightarrow>
     (critical (collectFindings env) \<noteq> [] \<and> production env)
     \<or> missing (collectFindings env) \<noteq> []"
proof (cases "critical (collectFindings env) \<noteq> [] \<and> production env")
  case True
  then show ?thesis
    using run_report_critical_production [of "collectFindings env" env]
    by (simp add: outcome_def completion_checkEnvironment)
next
  case False
  show ?thesis
  proof (cases "missing (collectFindings env) = []")
    case True
    with False show ?thesis
      using run_report_proceed [of "collectFindings env" env]
      by (simp add: outcome_def completion_checkEnvironment)
  next
    case m: False
    with False show ?thesis
      using run_report_missing [of "collectFindings env" env]
      by (simp add: outcome_def completion_checkEnvironment)
  qed
qed

lemma not_halt_proceed: "r \<noteq> Halt \<longleftrightarrow> r = Proceed"
  by (cases r) simp_all

lemma sink_production_halt:
  assumes "critical (collectFindings env) \<noteq> []" and "production env"
  shows "sink (checkEnvironment env)
           = criticalBody (collectFindings env) @ [ConsoleError msgCannotStart, ProcessExit 1]"
  using run_report_critical_production [OF assms] by (simp add: sink_checkEnvironment)

lemma sink_proceed:
  assumes "\<not> (critical (collectFindings env) \<noteq> [] \<and> production env)"
    and "missing (collectFindings env) = []"
  shows "sink (checkEnvironment env)
           = criticalShown (collectFindings env) @ reportWarnings (collectFindings env)
             @ [ConsoleLog msgValidated] @ reportOptional env"
  using run_report_proceed [OF assms] by (simp add: sink_checkEnvironment)

section \<open>The findings\<close>

lemma checkRequired_eq:
  "checkRequired env = filter (\<lambda>n. env n = None \<or> env n = Some [])
     [js ''PORT'', js ''JWT_SECRET'', js ''TELEGRAM_BOT_TOKEN'', js ''TELEGRAM_CHAT_ID'']"
  unfolding checkRequired_def requiredEnvVars_def
  by (rule filter_cong) (auto simp: truthy_iff)

lemma required_present:
  assumes "truthy (env (js ''PORT''))" "truthy (env (js ''JWT_SECRET''))"
    "truthy (env (js ''TELEGRAM_BOT_TOKEN''))" "truthy (env (js ''TELEGRAM_CHAT_ID''))"
  shows "checkRequired env = []"
  using assms by (simp add: checkRequired_def requiredEnvVars_def)

lemma checkSecret_strong:
  assumes "env (js ''JWT_SECRET'') = Some secret" and "32 \<le> length secret"
    and "secret \<noteq> js ''play-kids-secret-key''"
    and "\<not> includes_str secret (js ''your_super_secret'')"
  shows "checkSecret env = []"
  using assms by (simp add: checkSecret_def push_if_def Let_def)

lemma push_if_keeps: "x \<in> set xs \<Longrightarrow> x \<in> set (push_if b y xs)"
  by (simp add: push_if_def)

lemma push_if_adds: "b \<Longrightarrow> y \<in> set (push_if b y xs)"
  by (simp add: push_if_def)

lemma checkWarnings_port:
  assumes "isNaN (parseInt (env (js ''PORT''))) \<or> num_lt (parseInt (env (js ''PORT''))) 1
           \<or> num_gt (parseInt (env (js ''PORT''))) 65535"
  shows "msgPort \<in> set (checkWarnings env)"
proof -
  define w2 where "w2 = push_if (isNaN (parseInt (env (js ''PORT'')))
      \<or> num_lt (parseInt (env (js ''PORT''))) 1 \<or> num_gt (parseInt (env (js ''PORT''))) 65535)
     msgPort (push_if (opt_includes (env (js ''TELEGRAM_BOT_TOKEN'')) (js ''your_bot_token''))
                 msgBotToken [])"
  define w3 where "w3 = (if truthy (env (js ''RATE_LIMIT_WINDOW_MS'')) then
      push_if (isNaN (parseInt (env (js ''RATE_LIMIT_WINDOW_MS'')))
               \<or> num_lt (parseInt (env (js ''RATE_LIMIT_WINDOW_MS''))) 1000) msgWindow w2
      else w2)"
  define w4 where "w4 = (if truthy (env (js ''RATE_LIMIT_MAX_REQUESTS'')) then
      push_if (isNaN (parseInt (env (js ''RATE_LIMIT_MAX_REQUESTS'')))
               \<or> num_lt (parseInt (env (js ''RATE_LIMIT_MAX_REQUESTS''))) 1) msgMaxReq w3
      else w3)"
  define w5 where "w5 = (case env (js ''TELEGRAM_CHAT_ID'') of None \<Rightarrow> w4
      | Some chatId \<Rightarrow>
          push_if (chatId \<noteq> [] \<and> \<not> matches chatIdPattern chatId) msgChatId w4)"
  have eq: "checkWarnings env = (case env (js ''ALLOWED_ORIGINS'') of None \<Rightarrow> w5
      | Some allowed \<Rightarrow>
          if allowed \<noteq> [] then w5 @ concat (map checkOrigin (split_on 0x2C allowed)) else w5)"
    unfolding checkWarnings_def Let_def w5_def w4_def w3_def w2_def ..
  have "msgPort \<in> set w2"
    unfolding w2_def using assms by (rule push_if_adds)
  then have "msgPort \<in> set w3"
    unfolding w3_def by (simp add: push_if_keeps)
  then have "msgPort \<in> set w4"
    unfolding w4_def by (simp add: push_if_keeps)
  then have "msgPort \<in> set w5"
    unfolding w5_def by (simp add: push_if_keeps split: option.splits)
  then show ?thesis
    unfolding eq by (simp split: option.splits)
qed

lemma xs40_strong:
  "32 \<le> length xs40" "xs40 \<noteq> js ''play-kids-secret-key''"
  "\<not> includes_str xs40 (js ''your_super_secret'')"
  by (simp_all add: xs40_def js_def startsWith_def)

section \<open>Claims about checkEnvironment\<close>

text \<open>
  Claim C1. In every environment in which at least one of PORT, JWT_SECRET,
  TELEGRAM_BOT_TOKEN and TELEGRAM_CHAT_ID is absent or empty, the outcome is Halt, and the
  array \<open>missing\<close> holds exactly the required names that are absent or empty, in the order
  of \<open>requiredEnvVars\<close>.
\<close>

theorem missing_required_halts:
  assumes "env (js ''PORT'') = None \<or> env (js ''PORT'') = Some []
         \<or> env (js ''JWT_SECRET'') = None \<or> env (js ''JWT_SECRET'') = Some []
         \<or> env (js ''TELEGRAM_BOT_TOKEN'') = None \<or> env (js ''TELEGRAM_BOT_TOKEN'') = Some []
         \<or> env (js ''TELEGRAM_CHAT_ID'') = None \<or> env (js ''TELEGRAM_CHAT_ID'') = Some []"
  shows "outcome (checkEnvironment env) = Halt
       \<and> missing (found (checkEnvironment env))
           = filter (\<lambda>n. env n = None \<or> env n = Some [])
               [js ''PORT'', js ''JWT_SECRET'', js ''TELEGRAM_BOT_TOKEN'',
                js ''TELEGRAM_CHAT_ID'']"
proof -
  have "checkRequired env \<noteq> []"
    using assms unfolding checkRequired_eq by (auto simp: filter_empty_conv)
  then have "outcome (checkEnvironment env) = Halt"
    by (simp add: outcome_iff missing_collect)
  then show ?thesis
    by (simp add: found_checkEnvironment missing_collect checkRequired_eq)
qed

text \<open>
  The scenario of the specification: only JWT_SECRET is set, to \<open>short\<close>, in production.
\<close>

theorem missing_required_halts_witness:
  "outcome (checkEnvironment envShortSecret) = Halt
   \<and> missing (found (checkEnvironment envShortSecret))
       = [js ''PORT'', js ''TELEGRAM_BOT_TOKEN'', js ''TELEGRAM_CHAT_ID'']"
  using missing_required_halts [of envShortSecret]
  by (simp add: envShortSecret_def js_def)

text \<open>
  Claim C2. For every environment, with the mode read from NODE_ENV: a critical finding in
  production mode gives Halt; a missing finding gives Halt in every mode; and when there is
  neither a critical finding in production nor a missing finding, whatever the warnings and
  the optional variables, the outcome is Proceed.
\<close>

theorem outcome_invariant:
  "(critical (found (checkEnvironment env)) \<noteq> [] \<and> mode env = Some (js ''production'')
      \<longrightarrow> outcome (checkEnvironment env) = Halt)
   \<and> (missing (found (checkEnvironment env)) \<noteq> [] \<longrightarrow> outcome (checkEnvironment env) = Halt)
   \<and> (\<not> (critical (found (checkEnvironment env)) \<noteq> [] \<and> mode env = Some (js ''production''))
        \<and> missing (found (checkEnvironment env)) = []
      \<longrightarrow> outcome (checkEnvironment env) = Proceed)"
  using outcome_iff [of env] not_halt_proceed [of "outcome (checkEnvironment env)"]
  by (auto simp: found_checkEnvironment mode_def production_def)

text \<open>
  One environment for each part: a short secret in production with nothing missing, the
  empty environment (no mode at all), and a valid environment.
\<close>

theorem outcome_invariant_witness:
  "critical (found (checkEnvironment envWeakProduction)) = [msgJwtLength]
   \<and> missing (found (checkEnvironment envWeakProduction)) = []
   \<and> outcome (checkEnvironment envWeakProduction) = Halt
   \<and> missing (found (checkEnvironment envNone)) = requiredEnvVars
   \<and> mode envNone = None
   \<and> outcome (checkEnvironment envNone) = Halt
   \<and> critical (found (checkEnvironment envValid)) = []
   \<and> missing (found (checkEnvironment envValid)) = []
   \<and> outcome (checkEnvironment envValid) = Proceed"
proof -
  have c1: "critical (found (checkEnvironment envWeakProduction)) = [msgJwtLength]"
    by (simp add: found_checkEnvironment critical_collect checkSecret_def envWeakProduction_def
        push_if_def js_def startsWith_def)
  have m1: "missing (found (checkEnvironment envWeakProduction)) = []"
    by (simp add: found_checkEnvironment missing_collect checkRequired_def requiredEnvVars_def
        envWeakProduction_def js_def)
  have p1: "mode envWeakProduction = Some (js ''production'')"
    by (simp add: mode_def envWeakProduction_def js_def)
  have m2: "missing (found (checkEnvironment envNone)) = requiredEnvVars"
    by (simp add: found_checkEnvironment missing_collect checkRequired_def envNone_def)
  have p2: "mode envNone = None"
    by (simp add: mode_def envNone_def)
  have c3: "critical (found (checkEnvironment envValid)) = []"
    by (simp add: found_checkEnvironment critical_collect checkSecret_def envValid_def
        push_if_def js_def startsWith_def xs40_def)
  have m3: "missing (found (checkEnvironment envValid)) = []"
    by (simp add: found_checkEnvironment missing_collect checkRequired_def requiredEnvVars_def
        envValid_def js_def xs40_def)
  show ?thesis
    using outcome_invariant [of envWeakProduction] outcome_invariant [of envNone]
      outcome_invariant [of envValid] c1 m1 p1 m2 p2 c3 m3
    by (simp add: requiredEnvVars_def)
qed

text \<open>
  Claim C3. When JWT_SECRET is set to a string of at least 32 code units that is not the
  default \<open>play-kids-secret-key\<close> and has no substring \<open>your_super_secret\<close>, the array
  \<open>critical\<close> is empty: every critical finding of the function concerns JWT_SECRET, and
  none of the three is produced.
\<close>

theorem strong_secret_no_critical:
  assumes "env (js ''JWT_SECRET'') = Some secret"
    and "32 \<le> length secret"
    and "secret \<noteq> js ''play-kids-secret-key''"
    and "\<not> (\<exists>a b. secret = a @ js ''your_super_secret'' @ b)"
  shows "critical (found (checkEnvironment env)) = []"
  using assms checkSecret_strong [of env secret]
  by (simp add: found_checkEnvironment critical_collect includes_str_iff)

theorem strong_secret_no_critical_witness:
  "envValid (js ''JWT_SECRET'') = Some xs40 \<and> length xs40 = 40
   \<and> critical (found (checkEnvironment envValid)) = []"
proof -
  have a: "envValid (js ''JWT_SECRET'') = Some xs40"
    by (simp add: envValid_def js_def)
  have b: "length xs40 = 40"
    by (simp add: xs40_def js_def)
  have d: "\<not> (\<exists>a b. xs40 = a @ js ''your_super_secret'' @ b)"
    using xs40_strong(3) by (simp add: includes_str_iff)
  show ?thesis
    using strong_secret_no_critical [of envValid xs40, OF a xs40_strong(1,2) d] a b by simp
qed

text \<open>
  Claim C4, as stated: the validator performs no process termination itself and only
  returns the outcome. The code does end the process: in the empty environment
  \<open>process.exit(1)\<close> is among the effects of \<open>checkEnvironment\<close>.
\<close>

theorem validator_exits_itself_counterexample:
  "ProcessExit 1 \<in> set (sink (checkEnvironment envNone))"
  by (simp add: checkEnvironment_def collectFindings_def checkRequired_def requiredEnvVars_def
      checkSecret_def checkWarnings_def envNone_def reportStatements_def reportCritical_def
      reportMissing_def push_if_def parseInt_absent isNaN_def)

text \<open>
  Claim C4, amended. \<open>checkEnvironment\<close> ends the process itself, with
  \<open>process.exit(1)\<close>, and the findings decide when: it exits if and only if there is a
  critical finding in production mode or there is a missing finding (the Halt outcomes).
  It then exits exactly once, as its last effect, with code 1. In every other case it
  carries out no exit and returns to its caller (Proceed).
\<close>

theorem exit_iff_fatal_findings:
  "(ProcessExit 1 \<in> set (sink (checkEnvironment env))
      \<longleftrightarrow> (critical (found (checkEnvironment env)) \<noteq> []
             \<and> mode env = Some (js ''production''))
          \<or> missing (found (checkEnvironment env)) \<noteq> [])
   \<and> ((critical (found (checkEnvironment env)) \<noteq> [] \<and> mode env = Some (js ''production''))
        \<or> missing (found (checkEnvironment env)) \<noteq> []
      \<longrightarrow> length (filter isExit (sink (checkEnvironment env))) = 1
          \<and> last (sink (checkEnvironment env)) = ProcessExit 1
          \<and> completion (checkEnvironment env) = Exited 1)
   \<and> (\<not> (critical (found (checkEnvironment env)) \<noteq> [] \<and> mode env = Some (js ''production''))
        \<and> missing (found (checkEnvironment env)) = []
      \<longrightarrow> filter isExit (sink (checkEnvironment env)) = []
          \<and> completion (checkEnvironment env) = Returned)
   \<and> (outcome (checkEnvironment env) = Halt
        \<longleftrightarrow> (critical (found (checkEnvironment env)) \<noteq> []
               \<and> mode env = Some (js ''production''))
            \<or> missing (found (checkEnvironment env)) \<noteq> [])"
proof -
  let ?f = "collectFindings env"
  have fnd: "found (checkEnvironment env) = ?f"
    by (rule found_checkEnvironment)
  have md: "mode env = Some (js ''production'') \<longleftrightarrow> production env"
    by (simp add: mode_def production_def)
  have ex: "isExit (ProcessExit 1)"
    by (simp add: isExit_def)
  have oc: "outcome (checkEnvironment env) = Halt
        \<longleftrightarrow> (critical ?f \<noteq> [] \<and> production env) \<or> missing ?f \<noteq> []"
    by (rule outcome_iff)
  show ?thesis
  proof (cases "critical ?f \<noteq> [] \<and> production env")
    case True
    have "filter isExit (criticalBody ?f) = []"
      using criticalBody_no_exit by (rule filter_no_exit)
    then show ?thesis
      using True run_report_critical_production [of ?f env]
      by (simp add: fnd md oc sink_checkEnvironment completion_checkEnvironment isExit_def)
  next
    case False
    show ?thesis
    proof (cases "missing ?f = []")
      case True
      have ne: "\<forall>e \<in> set (criticalShown ?f @ reportWarnings ?f
               @ [ConsoleLog msgValidated] @ reportOptional env). \<not> isExit e"
        using criticalShown_no_exit [of ?f] reportWarnings_no_exit [of ?f]
          reportOptional_no_exit [of env]
        by (auto simp: isExit_def)
      have s: "sink (checkEnvironment env) = criticalShown ?f @ reportWarnings ?f
               @ [ConsoleLog msgValidated] @ reportOptional env"
        by (rule sink_proceed [OF False True])
      have "filter isExit (sink (checkEnvironment env)) = []"
        unfolding s using ne by (rule filter_no_exit)
      moreover have "ProcessExit 1 \<notin> set (sink (checkEnvironment env))"
        unfolding s using ne ex by blast
      moreover have "completion (checkEnvironment env) = Returned"
        using run_report_proceed [OF False True] by (simp add: completion_checkEnvironment)
      ultimately show ?thesis
        using False True by (simp add: fnd md oc)
    next
      case m: False
      have "filter isExit (criticalShown ?f) = []"
        using criticalShown_no_exit by (rule filter_no_exit)
      moreover have "filter isExit (missingBody ?f) = []"
        using missingBody_no_exit by (rule filter_no_exit)
      ultimately show ?thesis
        using False m run_report_missing [OF False m]
        by (simp add: fnd md oc sink_checkEnvironment completion_checkEnvironment isExit_def)
    qed
  qed
qed

text \<open>
  The empty environment exits in the missing block, a short secret in production with
  nothing missing exits in the critical block, and a valid environment returns.
\<close>

theorem exit_iff_fatal_findings_witness:
  "missing (found (checkEnvironment envNone)) = requiredEnvVars
   \<and> ProcessExit 1 \<in> set (sink (checkEnvironment envNone))
   \<and> length (filter isExit (sink (checkEnvironment envNone))) = 1
   \<and> last (sink (checkEnvironment envNone)) = ProcessExit 1
   \<and> completion (checkEnvironment envNone) = Exited 1
   \<and> critical (found (checkEnvironment envWeakProduction)) = [msgJwtLength]
   \<and> missing (found (checkEnvironment envWeakProduction)) = []
   \<and> mode envWeakProduction = Some (js ''production'')
   \<and> ProcessExit 1 \<in> set (sink (checkEnvironment envWeakProduction))
   \<and> outcome (checkEnvironment envWeakProduction) = Halt
   \<and> critical (found (checkEnvironment envValid)) = []
   \<and> missing (found (checkEnvironment envValid)) = []
   \<and> ProcessExit 1 \<notin> set (sink (checkEnvironment envValid))
   \<and> filter isExit (sink (checkEnvironment envValid)) = []
   \<and> completion (checkEnvironment envValid) = Returned
   \<and> outcome (checkEnvironment envValid) = Proceed"
proof -
  have m1: "missing (found (checkEnvironment envNone)) = requiredEnvVars"
    by (simp add: found_checkEnvironment missing_collect checkRequired_def envNone_def)
  have n1: "requiredEnvVars \<noteq> []"
    by (simp add: requiredEnvVars_def)
  have c3: "critical (found (checkEnvironment envWeakProduction)) = [msgJwtLength]"
    by (simp add: found_checkEnvironment critical_collect checkSecret_def envWeakProduction_def
        push_if_def js_def startsWith_def)
  have m3: "missing (found (checkEnvironment envWeakProduction)) = []"
    by (simp add: found_checkEnvironment missing_collect checkRequired_def requiredEnvVars_def
        envWeakProduction_def js_def)
  have p3: "mode envWeakProduction = Some (js ''production'')"
    by (simp add: mode_def envWeakProduction_def js_def)
  have c2: "critical (found (checkEnvironment envValid)) = []"
    by (simp add: found_checkEnvironment critical_collect checkSecret_def envValid_def
        push_if_def js_def startsWith_def xs40_def)
  have m2: "missing (found (checkEnvironment envValid)) = []"
    by (simp add: found_checkEnvironment missing_collect checkRequired_def requiredEnvVars_def
        envValid_def js_def xs40_def)
  show ?thesis
    using exit_iff_fatal_findings [of envNone] exit_iff_fatal_findings [of envWeakProduction]
      exit_iff_fatal_findings [of envValid] m1 n1 c3 m3 p3 c2 m2
    by (simp add: not_halt_proceed [symmetric])
qed

text \<open>
  Claim C6. When \<open>parseInt\<close> of PORT is \<open>NaN\<close> or lies outside 1 to 65535, the port
  message is among the warnings. The check does not block startup: whatever PORT holds, an
  environment in which the four required variables are set and the secret is strong ends in
  Proceed, in every mode; and with PORT set to \<open>99999\<close> the port message is among the
  warnings of that run.
\<close>

theorem port_warning_does_not_block:
  "(parseInt (env (js ''PORT'')) = None
      \<or> (\<exists>p. parseInt (env (js ''PORT'')) = Some p \<and> (p < 1 \<or> 65535 < p))
      \<longrightarrow> msgPort \<in> set (warnings (found (checkEnvironment env))))
   \<and> (truthy (env (js ''PORT''))
        \<and> env (js ''JWT_SECRET'') = Some secret \<and> 32 \<le> length secret
        \<and> secret \<noteq> js ''play-kids-secret-key''
        \<and> \<not> (\<exists>a b. secret = a @ js ''your_super_secret'' @ b)
        \<and> truthy (env (js ''TELEGRAM_BOT_TOKEN'')) \<and> truthy (env (js ''TELEGRAM_CHAT_ID''))
      \<longrightarrow> outcome (checkEnvironment env) = Proceed
          \<and> (env (js ''PORT'') = Some (js ''99999'')
               \<longrightarrow> msgPort \<in> set (warnings (found (checkEnvironment env)))))"
proof (intro conjI impI)
  assume "parseInt (env (js ''PORT'')) = None
      \<or> (\<exists>p. parseInt (env (js ''PORT'')) = Some p \<and> (p < 1 \<or> 65535 < p))"
  then have "isNaN (parseInt (env (js ''PORT''))) \<or> num_lt (parseInt (env (js ''PORT''))) 1
           \<or> num_gt (parseInt (env (js ''PORT''))) 65535"
    by (auto simp: isNaN_def num_lt_def num_gt_def)
  then show "msgPort \<in> set (warnings (found (checkEnvironment env)))"
    by (simp add: found_checkEnvironment warnings_collect checkWarnings_port)
next
  assume a: "truthy (env (js ''PORT''))
        \<and> env (js ''JWT_SECRET'') = Some secret \<and> 32 \<le> length secret
        \<and> secret \<noteq> js ''play-kids-secret-key''
        \<and> \<not> (\<exists>a b. secret = a @ js ''your_super_secret'' @ b)
        \<and> truthy (env (js ''TELEGRAM_BOT_TOKEN'')) \<and> truthy (env (js ''TELEGRAM_CHAT_ID''))"
  then have "secret \<noteq> []" by auto
  with a have "checkRequired env = []"
    by (simp add: required_present)
  moreover from a have "checkSecret env = []"
    by (simp add: checkSecret_strong includes_str_iff)
  ultimately have "outcome (checkEnvironment env) \<noteq> Halt"
    by (simp add: outcome_iff missing_collect critical_collect)
  then show "outcome (checkEnvironment env) = Proceed"
    by (simp add: not_halt_proceed)
next
  assume "env (js ''PORT'') = Some (js ''99999'')"
  then have "num_gt (parseInt (env (js ''PORT''))) 65535"
    by (simp add: parseInt_99999 num_gt_def)
  then show "msgPort \<in> set (warnings (found (checkEnvironment env)))"
    by (simp add: found_checkEnvironment warnings_collect checkWarnings_port)
qed

text \<open>
  The scenario of the specification, in production mode: the port message is the only
  warning and the run proceeds.
\<close>

theorem port_warning_does_not_block_witness:
  "envBigPort (js ''PORT'') = Some (js ''99999'')
   \<and> parseInt (envBigPort (js ''PORT'')) = Some 99999
   \<and> warnings (found (checkEnvironment envBigPort)) = [msgPort]
   \<and> outcome (checkEnvironment envBigPort) = Proceed"
proof -
  have port: "envBigPort (js ''PORT'') = Some (js ''99999'')"
    by (simp add: envBigPort_def js_def)
  have pt: "truthy (envBigPort (js ''PORT''))"
    by (simp add: envBigPort_def js_def)
  have secret: "envBigPort (js ''JWT_SECRET'') = Some xs40"
    by (simp add: envBigPort_def js_def)
  have ne: "\<not> (\<exists>a b. xs40 = a @ js ''your_super_secret'' @ b)"
    using xs40_strong(3) by (simp add: includes_str_iff)
  have bot: "truthy (envBigPort (js ''TELEGRAM_BOT_TOKEN''))"
    by (simp add: envBigPort_def js_def)
  have chat: "truthy (envBigPort (js ''TELEGRAM_CHAT_ID''))"
    by (simp add: envBigPort_def js_def)
  have w: "warnings (found (checkEnvironment envBigPort)) = [msgPort]"
    by (simp add: found_checkEnvironment warnings_collect checkWarnings_def envBigPort_def
        js_def push_if_def parseInt_99999 [unfolded js_def, simplified] startsWith_def
        chatIdPattern_def Optional_def OneOrMore_def isDigit_def isNaN_def num_lt_def
        num_gt_def)
  show ?thesis
    using port_warning_does_not_block [of envBigPort xs40] pt secret xs40_strong(1,2) ne bot
      chat w
    by (simp add: port parseInt_99999)
qed

text \<open>
  Claim C8, as stated: whenever no missing finding is present, the success line is
  emitted. With a short secret in production and all four required variables set, nothing
  is missing, and the run ends in the critical block before the success line.
\<close>

theorem success_after_critical_counterexample:
  "missing (found (checkEnvironment envWeakProduction)) = []
   \<and> ConsoleLog msgValidated \<notin> set (sink (checkEnvironment envWeakProduction))"
proof -
  have c: "critical (collectFindings envWeakProduction) = [msgJwtLength]"
    by (simp add: critical_collect checkSecret_def envWeakProduction_def
        push_if_def js_def startsWith_def)
  have m: "missing (found (checkEnvironment envWeakProduction)) = []"
    by (simp add: found_checkEnvironment missing_collect checkRequired_def requiredEnvVars_def
        envWeakProduction_def js_def)
  have p: "production envWeakProduction"
    by (simp add: production_def envWeakProduction_def js_def)
  have "sink (checkEnvironment envWeakProduction)
          = [ConsoleError msgCriticalHeader, ConsoleError (item msgJwtLength),
             ConsoleError msgCannotStart, ProcessExit 1]"
    using sink_production_halt [of envWeakProduction] c p by (simp add: criticalBody_def)
  with m show ?thesis by simp
qed

text \<open>
  Claim C8, amended. In every environment in which no missing finding is present and the
  run is not stopped by a critical finding in production mode, the success line is emitted
  and the outcome is Proceed; the line comes after the warning lines, also when there are
  warnings.
\<close>

theorem success_when_proceeding:
  assumes "missing (found (checkEnvironment env)) = []"
    and "\<not> (critical (found (checkEnvironment env)) \<noteq> []
             \<and> mode env = Some (js ''production''))"
  shows "outcome (checkEnvironment env) = Proceed
       \<and> ConsoleLog msgValidated \<in> set (sink (checkEnvironment env))
       \<and> (\<exists>before after. sink (checkEnvironment env)
             = before @ reportWarnings (found (checkEnvironment env))
               @ [ConsoleLog msgValidated] @ after)"
proof -
  have a: "\<not> (critical (collectFindings env) \<noteq> [] \<and> production env)"
    using assms(2) by (simp add: found_checkEnvironment mode_def production_def)
  have b: "missing (collectFindings env) = []"
    using assms(1) by (simp add: found_checkEnvironment)
  have "outcome (checkEnvironment env) \<noteq> Halt"
    using a b by (simp add: outcome_iff)
  then have "outcome (checkEnvironment env) = Proceed"
    by (simp add: not_halt_proceed)
  moreover have s: "sink (checkEnvironment env)
           = criticalShown (collectFindings env) @ reportWarnings (found (checkEnvironment env))
             @ [ConsoleLog msgValidated] @ reportOptional env"
    using sink_proceed [OF a b] by (simp add: found_checkEnvironment)
  moreover from s have "ConsoleLog msgValidated \<in> set (sink (checkEnvironment env))"
    by simp
  ultimately show ?thesis by blast
qed

theorem success_when_proceeding_witness:
  "warnings (found (checkEnvironment envBigPort)) \<noteq> []
   \<and> outcome (checkEnvironment envBigPort) = Proceed
   \<and> ConsoleLog msgValidated \<in> set (sink (checkEnvironment envBigPort))"
proof -
  have m: "missing (found (checkEnvironment envBigPort)) = []"
    by (simp add: found_checkEnvironment missing_collect checkRequired_def requiredEnvVars_def
        envBigPort_def js_def xs40_def)
  have c: "critical (found (checkEnvironment envBigPort)) = []"
    by (simp add: found_checkEnvironment critical_collect checkSecret_def envBigPort_def
        push_if_def js_def startsWith_def xs40_def)
  have "envBigPort (js ''PORT'') = Some (js ''99999'')"
    by (simp add: envBigPort_def js_def)
  then have "num_gt (parseInt (envBigPort (js ''PORT''))) 65535"
    by (simp add: parseInt_99999 num_gt_def)
  then have "msgPort \<in> set (warnings (found (checkEnvironment envBigPort)))"
    by (simp add: found_checkEnvironment warnings_collect checkWarnings_port)
  then have w: "warnings (found (checkEnvironment envBigPort)) \<noteq> []"
    by auto
  show ?thesis
    using success_when_proceeding [of envBigPort] m c w by simp
qed

text \<open>
  Claim C10. The port check does not depend on PORT being set: when PORT is absent or
  empty, \<open>PORT\<close> is among the missing names and the port message is among the warnings of
  the same run (which halts on the missing name).
\<close>

theorem port_absent_missing_and_warning:
  assumes "env (js ''PORT'') = None \<or> env (js ''PORT'') = Some []"
  shows "js ''PORT'' \<in> set (missing (found (checkEnvironment env)))
       \<and> msgPort \<in> set (warnings (found (checkEnvironment env)))
       \<and> outcome (checkEnvironment env) = Halt"
proof -
  have "parseInt (env (js ''PORT'')) = None"
    using assms parseInt_absent parseInt_empty by auto
  then have "msgPort \<in> set (checkWarnings env)"
    by (simp add: checkWarnings_port isNaN_def)
  moreover have m: "js ''PORT'' \<in> set (checkRequired env)"
    using assms by (auto simp: checkRequired_eq)
  moreover from m have "checkRequired env \<noteq> []"
    by auto
  then have "outcome (checkEnvironment env) = Halt"
    by (simp add: outcome_iff missing_collect)
  ultimately show ?thesis
    by (simp add: found_checkEnvironment missing_collect warnings_collect)
qed

text \<open>The empty environment: the run halts in the missing block.\<close>

theorem port_absent_missing_and_warning_witness:
  "envNone (js ''PORT'') = None
   \<and> js ''PORT'' \<in> set (missing (found (checkEnvironment envNone)))
   \<and> msgPort \<in> set (warnings (found (checkEnvironment envNone)))
   \<and> outcome (checkEnvironment envNone) = Halt"
proof -
  have a: "envNone (js ''PORT'') = None"
    by (simp add: envNone_def)
  then show ?thesis
    using port_absent_missing_and_warning [of envNone] by simp
qed

section \<open>Claims about validateEnvValue\<close>










text \<open>
  Claim C7. For each of the kinds number, boolean, url, email and string, the result is
  false when the value is absent or the empty string.
\<close>

theorem absent_or_empty_is_false:
  assumes "value = None \<or> value = Some []"
    and "kind \<in> {js ''number'', js ''boolean'', js ''url'', js ''email'', js ''string''}"
  shows "validateEnvValue H name value (Some kind) = Inr False"
  using assms(1) by (auto simp: validateEnvValue_def)

theorem absent_or_empty_is_false_witness:
  "validateEnvValue acceptHosts (js ''PORT'') None (Some (js ''number'')) = Inr False
   \<and> validateEnvValue acceptHosts (js ''PORT'') (Some []) (Some (js ''number'')) = Inr False
   \<and> validateEnvValue acceptHosts (js ''DEBUG'') None (Some (js ''boolean'')) = Inr False
   \<and> validateEnvValue acceptHosts (js ''DEBUG'') (Some []) (Some (js ''boolean'')) = Inr False
   \<and> validateEnvValue acceptHosts (js ''SITE'') None (Some (js ''url'')) = Inr False
   \<and> validateEnvValue acceptHosts (js ''SITE'') (Some []) (Some (js ''url'')) = Inr False
   \<and> validateEnvValue acceptHosts (js ''SMTP_USER'') None (Some (js ''email'')) = Inr False
   \<and> validateEnvValue acceptHosts (js ''SMTP_USER'') (Some []) (Some (js ''email'')) = Inr False
   \<and> validateEnvValue acceptHosts (js ''SMTP_HOST'') None (Some (js ''string'')) = Inr False
   \<and> validateEnvValue acceptHosts (js ''SMTP_HOST'') (Some []) (Some (js ''string'')) = Inr False"
  using absent_or_empty_is_false [of None "js ''number''" acceptHosts "js ''PORT''"]
    absent_or_empty_is_false [of "Some []" "js ''number''" acceptHosts "js ''PORT''"]
    absent_or_empty_is_false [of None "js ''boolean''" acceptHosts "js ''DEBUG''"]
    absent_or_empty_is_false [of "Some []" "js ''boolean''" acceptHosts "js ''DEBUG''"]
    absent_or_empty_is_false [of None "js ''url''" acceptHosts "js ''SITE''"]
    absent_or_empty_is_false [of "Some []" "js ''url''" acceptHosts "js ''SITE''"]
    absent_or_empty_is_false [of None "js ''email''" acceptHosts "js ''SMTP_USER''"]
    absent_or_empty_is_false [of "Some []" "js ''email''" acceptHosts "js ''SMTP_USER''"]
    absent_or_empty_is_false [of None "js ''string''" acceptHosts "js ''SMTP_HOST''"]
    absent_or_empty_is_false [of "Some []" "js ''string''" acceptHosts "js ''SMTP_HOST''"]
  by simp

text \<open>
  Claim C9. For a kind that is none of number, boolean, url and email, the result is true
  if and only if the value is a non-empty string; this is the result for the kind string,
  which is also the kind taken when the argument is left out.
\<close>

theorem other_kinds_behave_as_string:
  assumes "kind \<notin> {js ''number'', js ''boolean'', js ''url'', js ''email''}"
  shows "validateEnvValue H name value (Some kind) = Inr (\<exists>v. value = Some v \<and> v \<noteq> [])
       \<and> validateEnvValue H name value (Some kind)
           = validateEnvValue H name value (Some (js ''string''))
       \<and> validateEnvValue H name value None
           = validateEnvValue H name value (Some (js ''string''))"
proof -
  have s: "js ''string'' \<notin> {js ''number'', js ''boolean'', js ''url'', js ''email''}"
    by (simp add: js_def)
  have *: "validateEnvValue H name value (Some k) = Inr (\<exists>v. value = Some v \<and> v \<noteq> [])"
    if "k \<notin> {js ''number'', js ''boolean'', js ''url'', js ''email''}" for k
    using that by (cases "value") (auto simp: validateEnvValue_def Let_def)
  show ?thesis
    using * [OF assms] * [OF s] by (simp add: validateEnvValue_def)
qed

theorem other_kinds_behave_as_string_witness:
  "validateEnvValue acceptHosts (js ''ID'') (Some (js ''not a uuid'')) (Some (js ''uuid''))
     = Inr True
   \<and> validateEnvValue acceptHosts (js ''ID'') (Some []) (Some (js ''uuid'')) = Inr False
   \<and> validateEnvValue acceptHosts (js ''ID'') None (Some (js ''uuid'')) = Inr False"
proof -
  have k: "js ''uuid'' \<notin> {js ''number'', js ''boolean'', js ''url'', js ''email''}"
    by (simp add: js_def)
  have n: "js ''not a uuid'' \<noteq> []"
    by (simp add: js_def)
  show ?thesis
    using other_kinds_behave_as_string [OF k, of acceptHosts "js ''ID''" "Some (js ''not a uuid'')"]
      other_kinds_behave_as_string [OF k, of acceptHosts "js ''ID''" "Some []"]
      other_kinds_behave_as_string [OF k, of acceptHosts "js ''ID''" None] n
    by simp
qed

end
